theory Spec2Isabelle
  imports Main "HOL-Library.Word" "HOL-Library.Signed_Division"
begin

section \<open>The playback engine of forked-daapd (src/player.c)\<close>

text \<open>
  A shallow embedding of the player thread's state and of the functions of
  \<^verbatim>\<open>src/player.c\<close> that act on it. The build modelled is the Linux one
  with \<^verbatim>\<open>USE_EVENTFD\<close> (timerfd playback timer, eventfd update channel) on
  an LP64 target: \<^verbatim>\<open>int\<close> is 32 bits, \<^verbatim>\<open>time_t\<close> and \<^verbatim>\<open>long\<close> are 64 bits.

  \<^item> The file's static variables are the fields of the record \<open>player\<close>.
  \<^item> The queue items (\<^verbatim>\<open>struct player_source\<close>) live in an explicit store, the
    list \<open>heap\<close>; a pointer is an index into it and \<^verbatim>\<open>NULL\<close> is \<open>None\<close>.
    Dereferencing \<^verbatim>\<open>NULL\<close> or an index outside the store is a fault.
  \<^item> The collaborators that are not part of this file (clock, transcoder,
    media database, local sink, remote driver, timers, random numbers) are
    the fields of the record \<open>env\<close>: what each call answers. Calls made to
    them are appended to the field \<open>calls\<close> of the state.
  \<^item> The callbacks of the local sink and of the remote driver run on the
    player thread as events of their own; a driver call returns its code
    only.
\<close>

subsection \<open>Data model\<close>

datatype play_status = PLAY_STOPPED | PLAY_PAUSED | PLAY_PLAYING

datatype repeat_mode = REPEAT_OFF | REPEAT_SONG | REPEAT_ALL

datatype player_sync_source = PLAYER_SYNC_CLOCK | PLAYER_SYNC_LAUDIO

text \<open>
  \<^verbatim>\<open>enum laudio_state\<close> and \<^verbatim>\<open>enum raop_session_state\<close> are declared in
  headers outside this file; the constructors are the values \<^verbatim>\<open>player.c\<close>
  names, \<open>RAOP_OK\<close> standing for every session state it does not name.
\<close>

datatype laudio_state =
  LAUDIO_CLOSED | LAUDIO_STOPPING | LAUDIO_OPEN | LAUDIO_STARTED | LAUDIO_RUNNING | LAUDIO_FAILED

datatype raop_session_state = RAOP_STOPPED | RAOP_FAILED | RAOP_PASSWORD | RAOP_OK

record timespec =
  tv_sec :: "64 word"
  tv_nsec :: "64 word"

text \<open>\<^verbatim>\<open>struct player_source\<close>; the fields \<^verbatim>\<open>id\<close> and \<^verbatim>\<open>end\<close> are \<open>src_id\<close> and \<open>src_end\<close>.\<close>

record player_source =
  src_id :: "32 word"
  stream_start :: "64 word"
  output_start :: "64 word"
  src_end :: "64 word"
  ctx :: "nat option"
  pl_next :: "nat option"
  pl_prev :: "nat option"
  shuffle_next :: "nat option"
  shuffle_prev :: "nat option"
  play_next :: "nat option"

text \<open>
  \<^verbatim>\<open>struct raop_device\<close> (declared in raop.h), with the fields \<^verbatim>\<open>player.c\<close>
  reads or writes; \<open>dev_ptr\<close> is the address of the structure, by which the
  callbacks name a device. \<^verbatim>\<open>dev_list\<close> is the list of the structures in
  \<^verbatim>\<open>next\<close> order.
\<close>

record raop_device =
  dev_ptr :: nat
  dev_id :: "64 word"
  selected :: bool
  advertised :: bool
  has_password :: bool
  password :: "string option"
  session :: "nat option"

datatype timer_event = EV_CLEARED | EV_SET | EV_ADDED

text \<open>The bottom halves a command slot can hold (\<^verbatim>\<open>cmd.func_bh\<close>).\<close>

datatype cmd_bh = BH_NULL | BH_START | BH_PAUSE | BH_SEEK | BH_NEXT

text \<open>Calls into the collaborators that return nothing the player reads.\<close>

datatype ext_call =
  Laudio_close | Laudio_stop | Laudio_set_volume int
| Raop_playback_start "64 word" timespec | Raop_playback_stop
| Raop_device_stop nat | Raop_set_status_cb nat string
| Transcode_cleanup nat | Event_del | Close_fd int | Cond_signal
| Db_config_save_int int

record player =
  player_state :: play_status
  repeat :: repeat_mode
  shuffle :: bool
  update_fd :: int
  updates :: nat
  pb_timer_fd :: int
  pb_timer_ev :: timer_event
  pb_timer_last :: timespec
  pb_sync_source :: player_sync_source
  pb_pos_stamp :: timespec
  pb_pos :: "64 word"
  last_rtptime :: "64 word"
  dev_list :: "raop_device list"
  laudio_status :: laudio_state
  laudio_selected :: bool
  raop_sessions :: int
  cmd_func_bh :: cmd_bh
  cmd_ret :: int
  cmd_raop_pending :: int
  volume :: int
  source_head :: "nat option"
  shuffle_head :: "nat option"
  cur_playing :: "nat option"
  cur_streaming :: "nat option"
  heap :: "player_source list"
  audio_buf :: "8 word list"
  calls :: "ext_call list"

text \<open>
  The answers of the collaborators. \<open>clock_gettime\<close> is \<open>None\<close> when the
  monotonic clock cannot be read. \<open>PACKET_SAMPLES\<close> is the constant
  \<^verbatim>\<open>AIRTUNES_V2_PACKET_SAMPLES\<close> and \<open>laudio_f_started\<close> the test
  \<^verbatim>\<open>status & LAUDIO_F_STARTED\<close>, both declared outside this file. \<open>fuel\<close>
  bounds the iterations of the loops that follow pointers of the store.
\<close>

record env =
  clock_gettime :: "timespec option"
  laudio_get_pos :: "64 word"
  PACKET_SAMPLES :: "64 word"
  laudio_f_started :: "laudio_state \<Rightarrow> bool"
  laudio_open :: int
  laudio_start :: "64 word \<Rightarrow> 64 word \<Rightarrow> int"
  raop_device_start :: "raop_device \<Rightarrow> 64 word \<Rightarrow> int"
  raop_device_probe :: "raop_device \<Rightarrow> int"
  raop_flush :: "64 word \<Rightarrow> int"
  raop_set_volume :: "int \<Rightarrow> int"
  db_file_fetch_byid :: "32 word \<Rightarrow> bool option"
  transcode_setup :: "32 word \<Rightarrow> nat option"
  transcode_seek :: "nat option \<Rightarrow> 32 word \<Rightarrow> 32 word"
  shuffle_ptr :: "nat list \<Rightarrow> nat list"
  malloc_ok :: bool
  timerfd_create :: int
  timerfd_settime :: int
  event_add :: int
  fuel :: nat

subsection \<open>Status updates\<close>

text \<open>
  \<^verbatim>\<open>status_update\<close>: the field \<open>updates\<close> counts the writes to the update
  descriptor. A failed write is only logged.
\<close>

definition status_update :: "play_status \<Rightarrow> player \<Rightarrow> player" where
  "status_update status s =
     (let s1 = s\<lparr>player_state := status\<rparr>
      in if update_fd s1 < 0 then s1 else s1\<lparr>updates := updates s1 + 1\<rparr>)"

subsection \<open>Sync clock\<close>

text \<open>
  \<^verbatim>\<open>player_get_current_pos_clock\<close>. The result \<open>None\<close> is the return value -1,
  \<open>Some (pos, ts)\<close> the return value 0 with the two output parameters. The
  difference of the time stamps is computed in \<^verbatim>\<open>long\<close>: signed 64-bit
  arithmetic, division truncating towards zero, and then converted to
  \<^verbatim>\<open>uint64_t\<close>.
\<close>

definition clock_delta_us :: "timespec \<Rightarrow> timespec \<Rightarrow> 64 word" where
  "clock_delta_us ts stamp =
     (tv_sec ts - tv_sec stamp) * 1000000
       + word_of_int (sint (tv_nsec ts - tv_nsec stamp) sdiv 1000)"

definition player_get_current_pos_clock ::
    "env \<Rightarrow> bool \<Rightarrow> player \<Rightarrow> (64 word \<times> timespec) option \<times> player" where
  "player_get_current_pos_clock e commit s =
     (case clock_gettime e of
        None \<Rightarrow> (None, s)
      | Some ts \<Rightarrow>
          let delta = clock_delta_us ts (pb_pos_stamp s);
              delta = (delta * 44100) div 1000000;
              pos = pb_pos s + delta
          in if commit
             then (Some (pos, ts), s\<lparr>pb_pos := pos, pb_pos_stamp := ts\<rparr>)
             else (Some (pos, ts), s))"



subsection \<open>Device registry\<close>

text \<open>
  \<^verbatim>\<open>device_check\<close>, \<^verbatim>\<open>device_remove\<close>. A write \<^verbatim>\<open>dev->f = v\<close> is
  \<open>dev_modify\<close>, a read \<^verbatim>\<open>dev->f\<close> goes through \<open>dev_lookup\<close>; both are used
  only after \<^verbatim>\<open>device_check\<close> has found the device.
\<close>

definition device_check :: "nat \<Rightarrow> player \<Rightarrow> int" where
  "device_check dev s = (if dev \<in> set (map dev_ptr (dev_list s)) then 0 else -1)"

fun remove_dev :: "nat \<Rightarrow> raop_device list \<Rightarrow> raop_device list" where
  "remove_dev dev [] = []"
| "remove_dev dev (rd # rds) = (if dev_ptr rd = dev then rds else rd # remove_dev dev rds)"

definition device_remove :: "nat \<Rightarrow> player \<Rightarrow> player" where
  "device_remove dev s = s\<lparr>dev_list := remove_dev dev (dev_list s)\<rparr>"

definition dev_lookup :: "nat \<Rightarrow> player \<Rightarrow> raop_device option" where
  "dev_lookup dev s = find (\<lambda>rd. dev_ptr rd = dev) (dev_list s)"

definition dev_modify :: "nat \<Rightarrow> (raop_device \<Rightarrow> raop_device) \<Rightarrow> player \<Rightarrow> player" where
  "dev_modify dev f s =
     s\<lparr>dev_list := map (\<lambda>rd. if dev_ptr rd = dev then f rd else rd) (dev_list s)\<rparr>"

definition dev_advertised :: "nat \<Rightarrow> player \<Rightarrow> bool" where
  "dev_advertised dev s = (case dev_lookup dev s of None \<Rightarrow> False | Some rd \<Rightarrow> advertised rd)"

definition ext :: "ext_call \<Rightarrow> player \<Rightarrow> player" where
  "ext c s = s\<lparr>calls := calls s @ [c]\<rparr>"

text \<open>
  The end of every command callback: when no callback is outstanding the
  caller of the command is woken and reads \<^verbatim>\<open>cmd.ret\<close>.
\<close>

definition cmd_out :: "player \<Rightarrow> player" where
  "cmd_out s = (if cmd_raop_pending s = 0 then ext Cond_signal s else s)"

definition cmd_fail :: "player \<Rightarrow> player" where
  "cmd_fail s = (if cmd_ret s \<noteq> -2 then s\<lparr>cmd_ret := -1\<rparr> else s)"

subsection \<open>Remote-device callbacks\<close>

definition device_streaming_cb :: "nat \<Rightarrow> nat \<Rightarrow> raop_session_state \<Rightarrow> player \<Rightarrow> player" where
  "device_streaming_cb dev rs status s =
     (if status = RAOP_FAILED then
        (let s1 = s\<lparr>raop_sessions := raop_sessions s - 1\<rparr>
         in if device_check dev s1 < 0 then s1
            else
              let s2 = (if player_state s1 = PLAY_PLAYING
                        then dev_modify dev (\<lambda>rd. rd\<lparr>selected := False\<rparr>) s1 else s1);
                  s3 = dev_modify dev (\<lambda>rd. rd\<lparr>session := None\<rparr>) s2
              in if \<not> dev_advertised dev s3 then device_remove dev s3 else s3)
      else if status = RAOP_STOPPED then
        (let s1 = s\<lparr>raop_sessions := raop_sessions s - 1\<rparr>
         in if device_check dev s1 < 0 then s1
            else
              let s3 = dev_modify dev (\<lambda>rd. rd\<lparr>session := None\<rparr>) s1
              in if \<not> dev_advertised dev s3 then device_remove dev s3 else s3)
      else s)"








subsection \<open>Speaker selection\<close>








subsection \<open>The store of queue items\<close>

text \<open>
  A function that dereferences pointers of the store returns a fault when
  the pointer is \<^verbatim>\<open>NULL\<close> or dangling, and \<open>OUT_OF_FUEL\<close> when a loop along
  the links has not ended within \<open>fuel\<close> iterations. \<open>upd a f\<close> writes
  through a pointer that has been dereferenced before.
\<close>

datatype fault = NULL_DEREF | BAD_POINTER | OUT_OF_FUEL

definition bindr :: "fault + 'a \<Rightarrow> ('a \<Rightarrow> fault + 'b) \<Rightarrow> fault + 'b" where
  "bindr m f = (case m of Inl x \<Rightarrow> Inl x | Inr a \<Rightarrow> f a)"

definition deref :: "player \<Rightarrow> nat option \<Rightarrow> fault + player_source" where
  "deref s p =
     (case p of
        None \<Rightarrow> Inl NULL_DEREF
      | Some a \<Rightarrow> if a < length (heap s) then Inr (heap s ! a) else Inl BAD_POINTER)"

definition upd :: "nat \<Rightarrow> (player_source \<Rightarrow> player_source) \<Rightarrow> player \<Rightarrow> player" where
  "upd a f s = s\<lparr>heap := (heap s)[a := f (heap s ! a)]\<rparr>"

text \<open>
  \<^verbatim>\<open>source_stop\<close>. Its loop ends on every store: each iteration clears one
  \<^verbatim>\<open>play_next\<close> link, and \<open>linked\<close> counts the links that are left.
\<close>

definition linked :: "player_source list \<Rightarrow> nat" where
  "linked h = length (filter (\<lambda>n. play_next n \<noteq> None) h)"

function source_stop :: "nat option \<Rightarrow> player \<Rightarrow> fault + player" where
  "source_stop None s = Inr s"
| "source_stop (Some a) s =
     (if a < length (heap s) then
        (let s1 = (case ctx (heap s ! a) of
                     None \<Rightarrow> s
                   | Some c \<Rightarrow> upd a (\<lambda>n. n\<lparr>ctx := None\<rparr>) (ext (Transcode_cleanup c) s));
             nxt = play_next (heap s1 ! a)
         in source_stop nxt (upd a (\<lambda>n. n\<lparr>play_next := None\<rparr>) s1))
      else Inl BAD_POINTER)"
  by pat_completeness auto
termination
proof (relation "measure (\<lambda>(p, s). 2 * linked (heap s) + (if p = None then 0 else 1))")
  show "wf (measure (\<lambda>(p, s). 2 * linked (heap s) + (if p = None then 0 else 1)))"
    by simp
next
  fix a :: nat and s s1 :: player and nxt
  assume a: "a < length (heap s)"
    and s1: "s1 = (case ctx (heap s ! a) of
                     None \<Rightarrow> s
                   | Some c \<Rightarrow> upd a (\<lambda>n. n\<lparr>ctx := None\<rparr>) (ext (Transcode_cleanup c) s))"
    and nxt: "nxt = play_next (heap s1 ! a)"
  have cnt: "\<And>(h :: player_source list) x. a < length h \<Longrightarrow>
      linked (h[a := x]) + (if play_next (h ! a) \<noteq> None then 1 else 0)
        = linked h + (if play_next x \<noteq> None then 1 else 0)"
  proof -
    fix h :: "player_source list" and x
    assume "a < length h"
    then have u: "h[a := x] = take a h @ x # drop (Suc a) h"
      by (simp add: upd_conv_take_nth_drop)
    have "linked h = linked (take a h @ (h ! a) # drop (Suc a) h)"
      using id_take_nth_drop [OF \<open>a < length h\<close>] by simp
    then show "linked (h[a := x]) + (if play_next (h ! a) \<noteq> None then 1 else 0)
        = linked h + (if play_next x \<noteq> None then 1 else 0)"
      unfolding u by (simp add: linked_def)
  qed
  have h1: "length (heap s1) = length (heap s)" "linked (heap s1) = linked (heap s)"
    "play_next (heap s1 ! a) = play_next (heap s ! a)"
    using a cnt [of "heap s" "(heap s ! a)\<lparr>ctx := None\<rparr>"]
    by (auto simp add: s1 upd_def ext_def split: option.splits)
  have "linked (heap (upd a (\<lambda>n. n\<lparr>play_next := None\<rparr>) s1))
          + (if play_next (heap s1 ! a) \<noteq> None then 1 else 0) = linked (heap s1)"
    using cnt [of "heap s1" "(heap s1 ! a)\<lparr>play_next := None\<rparr>"] a h1
    by (simp add: upd_def)
  then show "((nxt, upd a (\<lambda>n. n\<lparr>play_next := None\<rparr>) s1), Some a, s)
       \<in> measure (\<lambda>(p, s). 2 * linked (heap s) + (if p = None then 0 else 1))"
    using h1 nxt by (auto split: if_splits)
qed


subsection \<open>Audio sources\<close>

text \<open>\<^verbatim>\<open>source_open\<close>; \<open>db_file_fetch_byid\<close> answers \<open>None\<close> for no row, else the \<^verbatim>\<open>disabled\<close> flag.\<close>

definition source_open :: "env \<Rightarrow> nat option \<Rightarrow> player \<Rightarrow> fault + (int \<times> player)" where
  "source_open e ps s =
     bindr (deref s ps) (\<lambda>node.
       let a = the ps;
           s1 = upd a (\<lambda>n. n\<lparr>stream_start := 0, output_start := 0, src_end := 0,
                                play_next := None\<rparr>) s
       in case db_file_fetch_byid e (src_id node) of
            None \<Rightarrow> Inr (-1, s1)
          | Some disabled \<Rightarrow>
              if disabled then Inr (-1, s1)
              else
                let s2 = upd a (\<lambda>n. n\<lparr>ctx := transcode_setup e (src_id node)\<rparr>) s1
                in if transcode_setup e (src_id node) = None then Inr (-1, s2)
                   else Inr (0, s2))"

text \<open>
  \<^verbatim>\<open>source_shuffle\<close>. \<open>pl_ring\<close> is each of its two \<^verbatim>\<open>do ... while (ps != head)\<close>
  walks along \<^verbatim>\<open>pl_next\<close>, collecting the items; \<open>shuffle_link\<close> is the body of
  its \<^verbatim>\<open>for\<close> loop at index \<open>i\<close>.
\<close>

fun pl_ring :: "nat \<Rightarrow> nat option \<Rightarrow> nat option \<Rightarrow> player \<Rightarrow> fault + nat list" where
  "pl_ring 0 head ps s = Inl OUT_OF_FUEL"
| "pl_ring (Suc n) head ps s =
     bindr (deref s ps) (\<lambda>node.
       if pl_next node = head then Inr [the ps]
       else bindr (pl_ring n head (pl_next node) s) (\<lambda>rest. Inr (the ps # rest)))"

definition shuffle_link :: "nat list \<Rightarrow> nat \<Rightarrow> player \<Rightarrow> fault + player" where
  "shuffle_link arr i s =
     bindr (deref s (Some (arr ! i))) (\<lambda>node.
       let s1 = (if i > 0 then upd (arr ! i) (\<lambda>n. n\<lparr>shuffle_prev := Some (arr ! (i - 1))\<rparr>) s
                 else s);
           s2 = (if i < length arr - 1
                 then upd (arr ! i) (\<lambda>n. n\<lparr>shuffle_next := Some (arr ! (i + 1))\<rparr>) s1
                 else s1)
       in Inr s2)"

definition source_shuffle :: "env \<Rightarrow> nat option \<Rightarrow> player \<Rightarrow> fault + (nat option \<times> player)" where
  "source_shuffle e head s =
     (if head = None then Inr (None, s)
      else
        bindr (pl_ring (fuel e) head head s) (\<lambda>items.
          if \<not> malloc_ok e then Inr (None, s)
          else
            let arr = shuffle_ptr e items
            in if arr = [] then Inl BAD_POINTER
               else
                 bindr (fold (\<lambda>i m. bindr m (shuffle_link arr i)) [0..<length arr] (Inr s))
                  (\<lambda>s1.
                 bindr (deref s1 (Some (arr ! 0))) (\<lambda>n0.
                   let s2 = upd (arr ! 0) (\<lambda>n. n\<lparr>shuffle_prev := Some (last arr)\<rparr>) s1
                   in bindr (deref s2 (Some (last arr))) (\<lambda>nl.
                        Inr (Some (arr ! 0),
                             upd (last arr) (\<lambda>n. n\<lparr>shuffle_next := Some (arr ! 0)\<rparr>) s2))))))"

definition source_reshuffle :: "env \<Rightarrow> player \<Rightarrow> fault + player" where
  "source_reshuffle e s =
     bindr (source_shuffle e (source_head s) s) (\<lambda>(ps, s1).
       if ps = None then Inr s1
       else if cur_streaming s1 \<noteq> None then Inr (s1\<lparr>shuffle_head := cur_streaming s1\<rparr>)
       else Inr (s1\<lparr>shuffle_head := ps\<rparr>))"

subsection \<open>Stopping playback\<close>

definition event_initialized :: "timer_event \<Rightarrow> bool" where
  "event_initialized ev = (ev \<noteq> EV_CLEARED)"

definition timer_teardown :: "player \<Rightarrow> player" where
  "timer_teardown s =
     (let s1 = (if event_initialized (pb_timer_ev s)
                then (ext Event_del s)\<lparr>pb_timer_ev := EV_SET\<rparr> else s)
      in (ext (Close_fd (pb_timer_fd s1)) s1)\<lparr>pb_timer_fd := -1\<rparr>)"

definition playback_stop :: "player \<Rightarrow> fault + (int \<times> player)" where
  "playback_stop s =
     (let s1 = (if laudio_status s \<noteq> LAUDIO_CLOSED then ext Laudio_close s else s);
          s2 = (if raop_sessions s1 > 0 then ext Raop_playback_stop s1 else s1);
          s3 = timer_teardown s2
      in bindr (if cur_playing s3 \<noteq> None then source_stop (cur_playing s3) s3
                else source_stop (cur_streaming s3) s3) (\<lambda>s4.
           let s5 = s4\<lparr>cur_playing := None, cur_streaming := None, audio_buf := []\<rparr>
           in Inr (0, status_update PLAY_STOPPED s5)))"

subsection \<open>Moving along the queue\<close>

text \<open>
  \<^verbatim>\<open>source_next\<close>, in four parts: the effective repeat mode \<open>source_next_r_mode\<close>,
  the candidate \<open>source_next_ps\<close>, the loop \<open>source_next_loop\<close> that opens
  candidates in turn (a \<^verbatim>\<open>do ... while (ps != limit)\<close> whose \<^verbatim>\<open>continue\<close> jumps
  to the test), and the \<^verbatim>\<open>switch\<close> with what follows it.
\<close>

definition one_item :: "player \<Rightarrow> fault + bool" where
  "one_item s = bindr (deref s (source_head s)) (\<lambda>h. Inr (source_head s = pl_next h))"

definition source_next_r_mode :: "bool \<Rightarrow> player \<Rightarrow> fault + repeat_mode" where
  "source_next_r_mode force s =
     (let r_mode = repeat s;
          r_mode = (if force \<and> r_mode = REPEAT_SONG then REPEAT_ALL else r_mode)
      in if r_mode = REPEAT_ALL then
           bindr (one_item s) (\<lambda>one.
             if one then Inr REPEAT_SONG
             else if \<not> force \<and> r_mode = REPEAT_OFF then
               bindr (one_item s) (\<lambda>one. Inr (if one then REPEAT_SONG else r_mode))
             else Inr r_mode)
         else if \<not> force \<and> r_mode = REPEAT_OFF then
           bindr (one_item s) (\<lambda>one. Inr (if one then REPEAT_SONG else r_mode))
         else Inr r_mode)"

definition source_next_ps :: "nat option \<Rightarrow> player \<Rightarrow> fault + nat option" where
  "source_next_ps head s =
     (if cur_streaming s = None then Inr head
      else bindr (deref s (cur_streaming s)) (\<lambda>cs.
             Inr (if shuffle s then shuffle_next cs else pl_next cs)))"

fun source_next_loop ::
    "env \<Rightarrow> nat \<Rightarrow> nat option \<Rightarrow> nat option \<Rightarrow> player \<Rightarrow> fault + (int \<times> nat option \<times> player)" where
  "source_next_loop e 0 ps limit s = Inl OUT_OF_FUEL"
| "source_next_loop e (Suc n) ps limit s =
     bindr (source_open e ps s) (\<lambda>(ret, s1).
       if ret < 0 then
         bindr (deref s1 ps) (\<lambda>node.
           let ps1 = (if shuffle s1 then shuffle_next node else pl_next node)
           in if ps1 \<noteq> limit then source_next_loop e n ps1 limit s1
              else Inr (ret, ps1, s1))
       else Inr (ret, ps, s1))"

definition source_next_open ::
    "env \<Rightarrow> bool \<Rightarrow> nat option \<Rightarrow> nat option \<Rightarrow> player \<Rightarrow> fault + (int \<times> player)" where
  "source_next_open e force ps limit s =
     bindr (source_next_loop e (fuel e) ps limit s) (\<lambda>(ret, ps1, s1).
       if ret < 0 then Inr (-1, s1)
       else
         bindr (if \<not> force \<and> cur_streaming s1 \<noteq> None
                then bindr (deref s1 (cur_streaming s1)) (\<lambda>cs.
                       Inr (upd (the (cur_streaming s1)) (\<lambda>n. n\<lparr>play_next := ps1\<rparr>) s1))
                else Inr s1) (\<lambda>s2.
           Inr (0, s2\<lparr>cur_streaming := ps1\<rparr>)))"

definition source_next_switch ::
    "env \<Rightarrow> bool \<Rightarrow> repeat_mode \<Rightarrow> player \<Rightarrow> fault + (int \<times> player)" where
  "source_next_switch e force r_mode s =
     (let head = (if shuffle s then shuffle_head s else source_head s)
      in bindr (source_next_ps head s) (\<lambda>ps.
           case r_mode of
             REPEAT_SONG \<Rightarrow>
               bindr (deref s (cur_streaming s)) (\<lambda>cs.
                 if ctx cs \<noteq> None then
                   (if sint (transcode_seek e (ctx cs) 0) < 0 then Inr (-1, s) else Inr (0, s))
                 else
                   bindr (source_open e (cur_streaming s) s) (\<lambda>(ret, s1).
                     if ret < 0 then Inr (-1, s1) else Inr (0, s1)))
           | REPEAT_ALL \<Rightarrow>
               if \<not> shuffle s then source_next_open e force ps ps s
               else if cur_streaming s \<noteq> None \<and> ps = shuffle_head s then
                 bindr (source_reshuffle e s) (\<lambda>s1.
                   source_next_open e force (shuffle_head s1) (shuffle_head s1) s1)
               else source_next_open e force ps (shuffle_head s) s
           | REPEAT_OFF \<Rightarrow>
               if force \<and> ps = head then
                 bindr (playback_stop s) (\<lambda>(ret, s1). Inr (0, s1))
               else source_next_open e force ps head s))"

definition source_next :: "env \<Rightarrow> bool \<Rightarrow> player \<Rightarrow> fault + (int \<times> player)" where
  "source_next e force s =
     bindr (source_next_r_mode force s) (\<lambda>r_mode. source_next_switch e force r_mode s)"


subsection \<open>The check of the playing item\<close>






subsection \<open>Commands\<close>

text \<open>\<^verbatim>\<open>playback_start_bh\<close>; \<open>start_fail\<close> is its label \<^verbatim>\<open>out_fail\<close>.\<close>

definition start_fail :: "player \<Rightarrow> fault + (int \<times> player)" where
  "start_fail s =
     bindr (playback_stop ((ext (Close_fd (pb_timer_fd s)) s)\<lparr>pb_timer_fd := -1\<rparr>))
       (\<lambda>(ret, s1). Inr (-1, s1))"

definition playback_start_bh :: "env \<Rightarrow> player \<Rightarrow> fault + (int \<times> player)" where
  "playback_start_bh e s =
     (if laudio_status s = LAUDIO_CLOSED \<and> raop_sessions s = 0 then start_fail s
      else
        let s1 = (if laudio_status s = LAUDIO_OPEN then ext (Laudio_set_volume (volume s)) s
                  else s)
        in if laudio_status s = LAUDIO_OPEN
              \<and> laudio_start e (pb_pos s1) (last_rtptime s1 + PACKET_SAMPLES e) < 0
           then start_fail s1
           else
             case clock_gettime e of
               None \<Rightarrow> start_fail s1
             | Some ts \<Rightarrow>
                 let s2 = s1\<lparr>pb_pos_stamp := ts, pb_timer_ev := EV_CLEARED, pb_timer_last := ts,
                            pb_timer_fd := timerfd_create e\<rparr>
                 in if pb_timer_fd s2 < 0 then start_fail s2
                    else if timerfd_settime e < 0 then start_fail s2
                    else
                      let s3 = s2\<lparr>pb_timer_ev := EV_SET\<rparr>
                      in if event_add e < 0 then start_fail s3
                         else
                           let s4 = s3\<lparr>pb_timer_ev := EV_ADDED\<rparr>;
                               s5 = (if raop_sessions s4 > 0
                                     then ext (Raop_playback_start
                                                (last_rtptime s4 + PACKET_SAMPLES e)
                                                (pb_pos_stamp s4)) s4
                                     else s4)
                           in Inr (0, status_update PLAY_PLAYING s5))"

text \<open>
  \<^verbatim>\<open>playback_start\<close>. The argument is \<^verbatim>\<open>idx_id\<close>: \<open>None\<close> for \<^verbatim>\<open>NULL\<close>, else the
  value it points to; the second component of the result is that value on
  return. \<open>pl_walk\<close> is the \<^verbatim>\<open>for\<close> loop that counts \<^verbatim>\<open>*idx_id\<close> down along
  \<^verbatim>\<open>pl_next\<close>, \<open>start_devices\<close> the loop over \<^verbatim>\<open>dev_list\<close>.
\<close>

fun pl_walk :: "nat \<Rightarrow> nat option \<Rightarrow> player \<Rightarrow> fault + nat option" where
  "pl_walk 0 ps s = Inr ps"
| "pl_walk (Suc n) ps s = bindr (deref s ps) (\<lambda>node. pl_walk n (pl_next node) s)"

fun start_devices :: "env \<Rightarrow> raop_device list \<Rightarrow> player \<Rightarrow> player" where
  "start_devices e [] s = s"
| "start_devices e (rd # rds) s =
     (if selected rd \<and> session rd = None then
        (if raop_device_start e rd (last_rtptime s + PACKET_SAMPLES e) < 0
         then start_devices e rds s
         else start_devices e rds (s\<lparr>cmd_raop_pending := cmd_raop_pending s + 1\<rparr>))
      else start_devices e rds s)"

definition playback_start_idx ::
    "env \<Rightarrow> 32 word \<Rightarrow> player \<Rightarrow> fault + (int \<times> 32 word \<times> player)" where
  "playback_start_idx e idx s =
     bindr (if cur_playing s \<noteq> None then source_stop (cur_playing s) s
            else if cur_streaming s \<noteq> None then source_stop (cur_streaming s) s
            else Inr s) (\<lambda>s1.
       let s2 = s1\<lparr>cur_playing := None, cur_streaming := None\<rparr>
       in bindr (if shuffle s2
                 then bindr (source_reshuffle e s2) (\<lambda>s3.
                        Inr (s3\<lparr>cur_streaming := shuffle_head s3\<rparr>))
                 else Inr (s2\<lparr>cur_streaming := source_head s2\<rparr>)) (\<lambda>s3.
            bindr (if idx > 0
                   then bindr (pl_walk (unat idx) (source_head s3) s3) (\<lambda>ps.
                          let s4 = s3\<lparr>cur_streaming := ps\<rparr>
                          in Inr (if shuffle s4 then s4\<lparr>shuffle_head := cur_streaming s4\<rparr>
                                  else s4))
                   else Inr s3) (\<lambda>s4.
              bindr (source_open e (cur_streaming s4) s4) (\<lambda>(ret, s5).
                if ret < 0 then Inr (-1, 0, s5)
                else
                  bindr (deref s5 (cur_streaming s5)) (\<lambda>cs.
                    let a = the (cur_streaming s5);
                        s6 = upd a (\<lambda>n. n\<lparr>stream_start := last_rtptime s5 + PACKET_SAMPLES e\<rparr>) s5;
                        s7 = upd a (\<lambda>n. n\<lparr>output_start := stream_start n\<rparr>) s6
                    in Inr (0, src_id cs, s7))))))"

definition playback_start_outputs ::
    "env \<Rightarrow> 32 word option \<Rightarrow> player \<Rightarrow> fault + (int \<times> 32 word option \<times> player)" where
  "playback_start_outputs e arg s =
     (if laudio_selected s \<and> laudio_status s = LAUDIO_CLOSED \<and> laudio_open e < 0
      then Inr (-1, arg, s)
      else
        let s1 = start_devices e (dev_list s) (s\<lparr>cmd_raop_pending := 0\<rparr>)
        in if laudio_status s1 = LAUDIO_CLOSED \<and> cmd_raop_pending s1 = 0 \<and> raop_sessions s1 = 0
           then Inr (-1, arg, s1)
           else if cmd_raop_pending s1 > 0 then Inr (1, arg, s1)
           else bindr (playback_start_bh e s1) (\<lambda>(ret, s2). Inr (ret, arg, s2)))"

definition playback_start ::
    "env \<Rightarrow> 32 word option \<Rightarrow> player \<Rightarrow> fault + (int \<times> 32 word option \<times> player)" where
  "playback_start e arg s =
     (if source_head s = None then Inr (-1, arg, s)
      else if player_state s = PLAY_PLAYING then
        bindr (case arg of
                 None \<Rightarrow> Inr None
               | Some idx \<Rightarrow>
                   if cur_playing s \<noteq> None
                   then bindr (deref s (cur_playing s)) (\<lambda>cp. Inr (Some (src_id cp)))
                   else bindr (deref s (cur_streaming s)) (\<lambda>cs. Inr (Some (src_id cs))))
          (\<lambda>arg1. Inr (0, arg1, status_update (player_state s) s))
      else
        let s1 = s\<lparr>pb_pos := last_rtptime s + PACKET_SAMPLES e - 88200\<rparr>
        in case arg of
             Some idx \<Rightarrow>
               bindr (playback_start_idx e idx s1) (\<lambda>(ret, idx1, s2).
                 if ret < 0 then Inr (-1, Some idx1, s2)
                 else playback_start_outputs e (Some idx1) s2)
           | None \<Rightarrow>
               if cur_streaming s1 = None then
                 bindr (if shuffle s1 then source_reshuffle e s1 else Inr s1) (\<lambda>s2.
                   bindr (source_next e False s2) (\<lambda>(ret, s3).
                     if ret < 0 then Inr (-1, None, s3)
                     else
                       bindr (deref s3 (cur_streaming s3)) (\<lambda>cs.
                         let a = the (cur_streaming s3);
                             s4 = upd a (\<lambda>n. n\<lparr>stream_start :=
                                                   last_rtptime s3 + PACKET_SAMPLES e\<rparr>) s3;
                             s5 = upd a (\<lambda>n. n\<lparr>output_start := stream_start n\<rparr>) s4
                         in playback_start_outputs e None s5)))
               else playback_start_outputs e None s1)"


definition seek_adjust :: "env \<Rightarrow> nat \<Rightarrow> 32 word \<Rightarrow> player \<Rightarrow> player" where
  "seek_adjust e a ret s =
     (let s1 = upd a (\<lambda>n. n\<lparr>stream_start := last_rtptime s + PACKET_SAMPLES e
                                   - (scast ret * 44100) div 1000\<rparr>) s;
          s2 = upd a (\<lambda>n. n\<lparr>output_start := last_rtptime s1 + PACKET_SAMPLES e\<rparr>) s1
      in s2\<lparr>cur_streaming := Some a, cur_playing := None\<rparr>)"

definition playback_seek_bh :: "env \<Rightarrow> 32 word option \<Rightarrow> player \<Rightarrow> fault + (int \<times> player)" where
  "playback_seek_bh e arg s =
     (case arg of
        None \<Rightarrow> Inl NULL_DEREF
      | Some ms \<Rightarrow>
          let ps = (if cur_playing s \<noteq> None then cur_playing s else cur_streaming s)
          in bindr (deref s ps) (\<lambda>psn.
               let a = the ps;
                   s1 = upd a (\<lambda>n. n\<lparr>src_end := 0\<rparr>) s;
                   ret = transcode_seek e (ctx psn) ms
               in if sint ret < 0 then bindr (playback_stop s1) (\<lambda>(r, s2). Inr (-1, s2))
                  else Inr (0, (seek_adjust e a ret s1)\<lparr>player_state := PLAY_PAUSED\<rparr>)))"








subsection \<open>Notions of the specification\<close>

text \<open>
  The elapsed time between two time stamps in microseconds, over the
  integers: whole seconds, plus the microseconds of the nanosecond
  difference (rounded towards zero).
\<close>

definition elapsed_us :: "timespec \<Rightarrow> timespec \<Rightarrow> int" where
  "elapsed_us ts stamp =
     (sint (tv_sec ts) - sint (tv_sec stamp)) * 1000000
       + (sint (tv_nsec ts) - sint (tv_nsec stamp)) sdiv 1000"

text \<open>
  The effective repeat mode of \<^verbatim>\<open>source_next\<close> in the words of the
  specification: a forced step treats Song as All; a queue of exactly one
  item treats All as Song; an unforced step with repeat Off on a queue of
  one item is treated as Song; otherwise the mode is the configured one.
\<close>

definition effective_repeat_mode :: "bool \<Rightarrow> repeat_mode \<Rightarrow> bool \<Rightarrow> repeat_mode" where
  "effective_repeat_mode force mode single =
     (let m = (if force \<and> mode = REPEAT_SONG then REPEAT_ALL else mode)
      in if single \<and> m = REPEAT_ALL then REPEAT_SONG
         else if \<not> force \<and> mode = REPEAT_OFF \<and> single then REPEAT_SONG
         else m)"

text \<open>The current item of the commands: \<^verbatim>\<open>cur_playing\<close> if set, else \<^verbatim>\<open>cur_streaming\<close>.\<close>

definition cur_item :: "player \<Rightarrow> nat option" where
  "cur_item s = (if cur_playing s \<noteq> None then cur_playing s else cur_streaming s)"



definition quiet :: "player \<Rightarrow> player \<Rightarrow> bool" where
  "quiet s s' = (updates s' = updates s \<and> player_state s' = player_state s
     \<and> update_fd s' = update_fd s)"


subsection \<open>Concrete states and environments\<close>

text \<open>
  \<^verbatim>\<open>player_init\<close>: the state the player thread starts from, for the random
  RTP start \<open>rnd\<close> and the stored volume \<open>vol\<close>; statics that \<^verbatim>\<open>player_init\<close>
  does not assign are zero.
\<close>

definition player_init :: "32 word \<Rightarrow> int \<Rightarrow> player" where
  "player_init rnd vol =
     \<lparr>player_state = PLAY_STOPPED, repeat = REPEAT_OFF, shuffle = False,
      update_fd = -1, updates = 0, pb_timer_fd = -1, pb_timer_ev = EV_CLEARED,
      pb_timer_last = \<lparr>tv_sec = 0, tv_nsec = 0\<rparr>,
      pb_sync_source = PLAYER_SYNC_CLOCK,
      pb_pos_stamp = \<lparr>tv_sec = 0, tv_nsec = 0\<rparr>, pb_pos = 0,
      last_rtptime = push_bit 32 1 + ucast rnd,
      dev_list = [], laudio_status = LAUDIO_CLOSED, laudio_selected = False,
      raop_sessions = 0, cmd_func_bh = BH_NULL, cmd_ret = 0, cmd_raop_pending = 0,
      volume = vol, source_head = None, shuffle_head = None,
      cur_playing = None, cur_streaming = None, heap = [], audio_buf = [],
      calls = []\<rparr>"

text \<open>An environment in which every collaborator succeeds.\<close>

definition good_env :: env where
  "good_env =
     \<lparr>clock_gettime = Some \<lparr>tv_sec = 12, tv_nsec = 100000000\<rparr>,
      laudio_get_pos = 0, PACKET_SAMPLES = 352,
      laudio_f_started = (\<lambda>st. st = LAUDIO_STARTED \<or> st = LAUDIO_RUNNING),
      laudio_open = 0, laudio_start = (\<lambda>pos rtptime. 0),
      raop_device_start = (\<lambda>rd rtptime. 0), raop_device_probe = (\<lambda>rd. 0),
      raop_flush = (\<lambda>rtptime. 0), raop_set_volume = (\<lambda>vol. 0),
      db_file_fetch_byid = (\<lambda>i. Some False), transcode_setup = (\<lambda>i. Some (unat i)),
      transcode_seek = (\<lambda>c ms. ms), shuffle_ptr = (\<lambda>ps. ps), malloc_ok = True,
      timerfd_create = 3, timerfd_settime = 0, event_add = 0, fuel = 100\<rparr>"




text \<open>A normalised time stamp: its nanoseconds are within one second.\<close>

definition valid_nsec :: "timespec \<Rightarrow> bool" where
  "valid_nsec ts = (0 \<le> sint (tv_nsec ts) \<and> sint (tv_nsec ts) < 1000000000)"

definition clock_state :: player where
  "clock_state = (player_init 0 75)
     \<lparr>pb_pos := 1000, pb_pos_stamp := \<lparr>tv_sec = 10, tv_nsec = 900000000\<rparr>\<rparr>"





text \<open>Queues of one and of three items, rings in playlist and in shuffle order.\<close>

definition item :: "32 word \<Rightarrow> nat \<Rightarrow> nat \<Rightarrow> player_source" where
  "item i nxt prv = \<lparr>src_id = i, stream_start = 0, output_start = 0, src_end = 0, ctx = None,
     pl_next = Some nxt, pl_prev = Some prv, shuffle_next = Some nxt, shuffle_prev = Some prv,
     play_next = None\<rparr>"

definition one_song :: player where
  "one_song = (player_init 0 75)\<lparr>heap := [item 7 0 0], source_head := Some 0,
     shuffle_head := Some 0\<rparr>"

definition three_songs :: player where
  "three_songs = (player_init 0 75)\<lparr>heap := [item 7 1 2, item 8 2 0, item 9 0 1],
     source_head := Some 0, shuffle_head := Some 0\<rparr>"

text \<open>
  The first of three songs playing, 10000 samples into the stream, with an
  open transcoder context, the local output running and an update
  descriptor registered; and the same with no update descriptor.
\<close>

definition playing_song :: player where
  "playing_song = three_songs\<lparr>player_state := PLAY_PLAYING, update_fd := 5,
     heap := [(item 7 1 2)\<lparr>ctx := Some 40, stream_start := 10000\<rparr>, item 8 2 0, item 9 0 1],
     cur_playing := Some 0, cur_streaming := Some 0, last_rtptime := 100000,
     pb_pos := 20000, pb_pos_stamp := \<lparr>tv_sec = 12, tv_nsec = 100000000\<rparr>,
     laudio_status := LAUDIO_RUNNING, laudio_selected := True,
     pb_timer_fd := 3, pb_timer_ev := EV_ADDED\<rparr>"

definition unwatched_song :: player where
  "unwatched_song = playing_song\<lparr>update_fd := -1\<rparr>"







section \<open>Properties\<close>

subsection \<open>Sync clock\<close>

lemma sint_nsec_diff:
  fixes c d :: "64 word"
  assumes "0 \<le> sint c" "sint c < 1000000000" "0 \<le> sint d" "sint d < 1000000000"
  shows "sint (c - d) = sint c - sint d"
proof -
  have "sint (c - d) = signed_take_bit 63 (sint c - sint d)"
    by (simp add: sint_word_ariths)
  also have "\<dots> = sint c - sint d"
    using assms by (intro signed_take_bit_int_eq_self) simp_all
  finally show ?thesis .
qed

lemma clock_delta_us_eq:
  assumes "0 \<le> sint (tv_nsec ts)" "sint (tv_nsec ts) < 1000000000"
    "0 \<le> sint (tv_nsec stamp)" "sint (tv_nsec stamp) < 1000000000"
  shows "clock_delta_us ts stamp = word_of_int (elapsed_us ts stamp)"
proof -
  have "tv_sec ts - tv_sec stamp = word_of_int (sint (tv_sec ts) - sint (tv_sec stamp))"
    by simp
  then show ?thesis
    unfolding clock_delta_us_def elapsed_us_def
    by (simp add: sint_nsec_diff [OF assms])
qed

lemma uint_word_of_int_64:
  assumes "0 \<le> X" "X < 2 ^ 64"
  shows "uint (word_of_int X :: 64 word) = X"
  using assms by (simp add: uint_word_of_int take_bit_int_eq_self)

lemma samples_of_us:
  assumes "0 \<le> E" "E * 44100 < 2 ^ 64"
  shows "((word_of_int E :: 64 word) * 44100) div 1000000
           = word_of_int ((E * 44100) div 1000000)"
proof -
  have m: "(word_of_int E :: 64 word) * 44100 = word_of_int (E * 44100)" by simp
  have "0 \<le> E * 44100" using assms(1) by simp
  then have u: "uint (word_of_int (E * 44100) :: 64 word) = E * 44100"
    using assms(2) by (rule uint_word_of_int_64)
  have "uint (((word_of_int E :: 64 word) * 44100) div 1000000) = (E * 44100) div 1000000"
    unfolding m by (simp only: uint_div u) simp
  then show ?thesis
    by (metis word_of_int_uint)
qed

text \<open>
  C6. The position query of the clock source returns
  \<open>pos = pb_pos + (delta_us * 44100) div 1000000\<close>, where \<open>delta_us\<close> is the
  time elapsed from \<open>pb_pos_stamp\<close> to the clock reading \<open>ts\<close> in
  microseconds; with the commit flag it installs \<open>(pos, ts)\<close> as the new
  \<open>(pb_pos, pb_pos_stamp)\<close>, without it the state is unchanged; it fails
  exactly when the clock cannot be read, leaving the state unchanged. The
  third conjunct is the 64-bit computation for every reading; the fourth
  states it over the integers, for normalised time stamps, a clock that has
  not gone backwards and a product that fits 64 bits.
\<close>

theorem clock_position_query:
  "(fst (player_get_current_pos_clock e commit s) = None) = (clock_gettime e = None)
   \<and> (clock_gettime e = None \<longrightarrow> snd (player_get_current_pos_clock e commit s) = s)
   \<and> (\<forall>ts. clock_gettime e = Some ts \<longrightarrow>
         player_get_current_pos_clock e commit s =
           (let pos = pb_pos s + (clock_delta_us ts (pb_pos_stamp s) * 44100) div 1000000
            in (Some (pos, ts),
                if commit then s\<lparr>pb_pos := pos, pb_pos_stamp := ts\<rparr> else s)))
   \<and> (\<forall>ts. clock_gettime e = Some ts \<and> valid_nsec ts \<and> valid_nsec (pb_pos_stamp s)
           \<and> 0 \<le> elapsed_us ts (pb_pos_stamp s)
           \<and> elapsed_us ts (pb_pos_stamp s) * 44100 < 2 ^ 64 \<longrightarrow>
         player_get_current_pos_clock e commit s =
           (let pos = word_of_int
                  (uint (pb_pos s) + (elapsed_us ts (pb_pos_stamp s) * 44100) div 1000000)
            in (Some (pos, ts),
                if commit then s\<lparr>pb_pos := pos, pb_pos_stamp := ts\<rparr> else s)))"
proof (intro conjI allI impI)
  show "(fst (player_get_current_pos_clock e commit s) = None) = (clock_gettime e = None)"
    by (simp add: player_get_current_pos_clock_def Let_def split: option.splits)
next
  assume "clock_gettime e = None"
  then show "snd (player_get_current_pos_clock e commit s) = s"
    by (simp add: player_get_current_pos_clock_def)
next
  fix ts assume "clock_gettime e = Some ts"
  then show "player_get_current_pos_clock e commit s =
           (let pos = pb_pos s + (clock_delta_us ts (pb_pos_stamp s) * 44100) div 1000000
            in (Some (pos, ts),
                if commit then s\<lparr>pb_pos := pos, pb_pos_stamp := ts\<rparr> else s))"
    by (simp add: player_get_current_pos_clock_def Let_def)
next
  fix ts
  assume a: "clock_gettime e = Some ts \<and> valid_nsec ts \<and> valid_nsec (pb_pos_stamp s)
           \<and> 0 \<le> elapsed_us ts (pb_pos_stamp s)
           \<and> elapsed_us ts (pb_pos_stamp s) * 44100 < 2 ^ 64"
  let ?E = "elapsed_us ts (pb_pos_stamp s)"
  have d: "clock_delta_us ts (pb_pos_stamp s) = word_of_int ?E"
    using a by (intro clock_delta_us_eq) (simp_all add: valid_nsec_def)
  have "(clock_delta_us ts (pb_pos_stamp s) * 44100) div 1000000
          = word_of_int ((?E * 44100) div 1000000)"
    unfolding d using a by (intro samples_of_us) simp_all
  then have "pb_pos s + (clock_delta_us ts (pb_pos_stamp s) * 44100) div 1000000
          = word_of_int (uint (pb_pos s) + (?E * 44100) div 1000000)"
    by simp
  then show "player_get_current_pos_clock e commit s =
           (let pos = word_of_int
                  (uint (pb_pos s) + (elapsed_us ts (pb_pos_stamp s) * 44100) div 1000000)
            in (Some (pos, ts),
                if commit then s\<lparr>pb_pos := pos, pb_pos_stamp := ts\<rparr> else s))"
    using a by (simp add: player_get_current_pos_clock_def Let_def)
qed

theorem clock_position_query_witness:
  "clock_gettime good_env = Some \<lparr>tv_sec = 12, tv_nsec = 100000000\<rparr>
   \<and> valid_nsec \<lparr>tv_sec = 12, tv_nsec = 100000000\<rparr> \<and> valid_nsec (pb_pos_stamp clock_state)
   \<and> elapsed_us \<lparr>tv_sec = 12, tv_nsec = 100000000\<rparr> (pb_pos_stamp clock_state) = 1200000
   \<and> player_get_current_pos_clock good_env True clock_state =
       (Some (53920, \<lparr>tv_sec = 12, tv_nsec = 100000000\<rparr>),
        clock_state\<lparr>pb_pos := 53920, pb_pos_stamp := \<lparr>tv_sec = 12, tv_nsec = 100000000\<rparr>\<rparr>)
   \<and> clock_gettime (good_env\<lparr>clock_gettime := None\<rparr>) = None
   \<and> player_get_current_pos_clock (good_env\<lparr>clock_gettime := None\<rparr>) True clock_state
        = (None, clock_state)"
proof -
  let ?ts = "\<lparr>tv_sec = 12, tv_nsec = 100000000\<rparr>"
  have g: "clock_gettime good_env = Some ?ts" by (simp add: good_env_def)
  have v: "valid_nsec ?ts" "valid_nsec (pb_pos_stamp clock_state)"
    by (simp_all add: valid_nsec_def clock_state_def)
  have el: "elapsed_us ?ts (pb_pos_stamp clock_state) = 1200000"
    by (simp add: elapsed_us_def clock_state_def signed_divide_int_def)
  have p: "pb_pos clock_state = 1000" by (simp add: clock_state_def)
  have n: "clock_gettime (good_env\<lparr>clock_gettime := None\<rparr>) = None" by simp
  note q = clock_position_query [of good_env True clock_state]
  note q4 = q [THEN conjunct2, THEN conjunct2, THEN conjunct2, rule_format, of ?ts]
  have "player_get_current_pos_clock good_env True clock_state =
       (Some (53920, ?ts), clock_state\<lparr>pb_pos := 53920, pb_pos_stamp := ?ts\<rparr>)"
    using q4 g v el p by (simp add: Let_def)
  moreover from clock_position_query [of "good_env\<lparr>clock_gettime := None\<rparr>" True clock_state]
  have "player_get_current_pos_clock (good_env\<lparr>clock_gettime := None\<rparr>) True clock_state
        = (None, clock_state)"
    using n by (metis prod.collapse)
  ultimately show ?thesis using g v el n by simp
qed

subsection \<open>Speaker selection and device callbacks\<close>

lemma cmd_ret_ext [simp]: "cmd_ret (ext c s) = cmd_ret s"
  by (simp add: ext_def)

lemma cmd_ret_dev_modify [simp]: "cmd_ret (dev_modify dev f s) = cmd_ret s"
  by (simp add: dev_modify_def)

lemma cmd_ret_device_remove [simp]: "cmd_ret (device_remove dev s) = cmd_ret s"
  by (simp add: device_remove_def)

lemma cmd_ret_cmd_out [simp]: "cmd_ret (cmd_out s) = cmd_ret s"
  by (simp add: cmd_out_def)


lemma device_streaming_cb_cmd_ret [simp]:
  "cmd_ret (device_streaming_cb dev rs status s) = cmd_ret s"
  by (simp add: device_streaming_cb_def Let_def)














lemma cmd_fail_fields [simp]:
  "cmd_raop_pending (cmd_fail s) = cmd_raop_pending s" "cmd_ret (cmd_fail s) \<noteq> 0"
  by (simp_all add: cmd_fail_def)











subsection \<open>The store\<close>

lemma bindr_simps [simp]: "bindr (Inl x) f = Inl x" "bindr (Inr a) f = f a"
  by (simp_all add: bindr_def)


lemma deref_Some [simp]: "a < length (heap s) \<Longrightarrow> deref s (Some a) = Inr (heap s ! a)"
  by (simp add: deref_def)

lemma deref_None [simp]: "deref s None = Inl NULL_DEREF"
  by (simp add: deref_def)

lemma deref_Inr: "deref s p = Inr n \<Longrightarrow> \<exists>a. p = Some a \<and> a < length (heap s) \<and> n = heap s ! a"
  by (auto simp add: deref_def split: option.splits if_splits)

lemma upd_fields [simp]:
  "cur_streaming (upd a f s) = cur_streaming s" "cur_playing (upd a f s) = cur_playing s"
  "player_state (upd a f s) = player_state s" "updates (upd a f s) = updates s"
  "update_fd (upd a f s) = update_fd s" "last_rtptime (upd a f s) = last_rtptime s"
  "length (heap (upd a f s)) = length (heap s)"
  "a < length (heap s) \<Longrightarrow> heap (upd a f s) ! a = f (heap s ! a)"
  by (simp_all add: upd_def)

lemma source_open_returns:
  "deref s ps = Inr n \<Longrightarrow> \<exists>ret s1. source_open e ps s = Inr (ret, s1)"
  by (simp add: source_open_def Let_def split: option.splits)

subsection \<open>The source queue\<close>

text \<open>
  C4. \<^verbatim>\<open>source_next\<close> computes its effective repeat mode as specified: with
  \<open>force\<close> and mode Song it is All; then, if the playlist has exactly one
  item (\<^verbatim>\<open>source_head == source_head->pl_next\<close>) and the mode so far is All,
  it is Song; if not \<open>force\<close>, the mode is Off and the playlist has exactly
  one item, it is Song; otherwise it is the configured mode. \<^verbatim>\<open>source_next\<close>
  then dispatches on that mode.
\<close>

theorem source_next_effective_mode:
  "(deref s (source_head s) = Inr h \<longrightarrow>
      source_next_r_mode force s
        = Inr (effective_repeat_mode force (repeat s) (pl_next h = source_head s)))
   \<and> source_next e force s
        = bindr (source_next_r_mode force s) (\<lambda>r_mode. source_next_switch e force r_mode s)"
  by (cases "repeat s"; cases force)
    (auto simp add: source_next_r_mode_def effective_repeat_mode_def one_item_def
      source_next_def Let_def)

theorem source_next_effective_mode_witness:
  "deref one_song (source_head one_song) = Inr (item 7 0 0)
   \<and> source_next_r_mode False one_song = Inr REPEAT_SONG
   \<and> effective_repeat_mode False (repeat one_song) True = REPEAT_SONG
   \<and> source_next_r_mode True (three_songs\<lparr>repeat := REPEAT_SONG\<rparr>) = Inr REPEAT_ALL"
proof -
  have d: "deref one_song (source_head one_song) = Inr (item 7 0 0)"
    by (simp add: one_song_def)
  have d3: "deref (three_songs\<lparr>repeat := REPEAT_SONG\<rparr>)
      (source_head (three_songs\<lparr>repeat := REPEAT_SONG\<rparr>)) = Inr (item 7 1 2)"
    by (simp add: three_songs_def)
  have e: "effective_repeat_mode False (repeat one_song) (pl_next (item 7 0 0) = source_head one_song)
      = REPEAT_SONG"
    "effective_repeat_mode False (repeat one_song) True = REPEAT_SONG"
    by (simp_all add: effective_repeat_mode_def one_song_def player_init_def item_def)
  have e3: "effective_repeat_mode True (repeat (three_songs\<lparr>repeat := REPEAT_SONG\<rparr>))
      (pl_next (item 7 1 2) = source_head (three_songs\<lparr>repeat := REPEAT_SONG\<rparr>)) = REPEAT_ALL"
    by (simp add: effective_repeat_mode_def three_songs_def item_def)
  from source_next_effective_mode [of one_song "item 7 0 0" False] d e
  have "source_next_r_mode False one_song = Inr REPEAT_SONG" by simp
  moreover from source_next_effective_mode
    [of "three_songs\<lparr>repeat := REPEAT_SONG\<rparr>" "item 7 1 2" True] d3 e3
  have "source_next_r_mode True (three_songs\<lparr>repeat := REPEAT_SONG\<rparr>) = Inr REPEAT_ALL"
    by simp
  ultimately show ?thesis using d e by simp
qed

text \<open>
  C9. The Song branch of \<^verbatim>\<open>source_next\<close> reads \<^verbatim>\<open>cur_streaming->ctx\<close>
  unconditionally: with \<^verbatim>\<open>cur_streaming == NULL\<close> and effective mode Song the
  call is a null dereference; \<^verbatim>\<open>playback_start\<close> reaches it when it is called
  without an index, with no current item and with repeat mode Song; with a
  valid \<^verbatim>\<open>cur_streaming\<close> the Song branch returns.
\<close>

theorem source_next_song_needs_cur_streaming:
  "(cur_streaming s = None \<and> source_next_r_mode force s = Inr REPEAT_SONG
      \<longrightarrow> source_next e force s = Inl NULL_DEREF)
   \<and> (cur_streaming s = None \<and> player_state s \<noteq> PLAY_PLAYING \<and> \<not> shuffle s
        \<and> repeat s = REPEAT_SONG \<and> source_head s \<noteq> None
      \<longrightarrow> playback_start e None s = Inl NULL_DEREF)
   \<and> (deref s (cur_streaming s) = Inr cs \<and> source_next_r_mode force s = Inr REPEAT_SONG
      \<longrightarrow> \<not> isl (source_next e force s))"
proof (intro conjI impI)
  assume "cur_streaming s = None \<and> source_next_r_mode force s = Inr REPEAT_SONG"
  then show "source_next e force s = Inl NULL_DEREF"
    by (simp add: source_next_def source_next_switch_def source_next_ps_def Let_def)
next
  assume a: "cur_streaming s = None \<and> player_state s \<noteq> PLAY_PLAYING \<and> \<not> shuffle s
        \<and> repeat s = REPEAT_SONG \<and> source_head s \<noteq> None"
  let ?s1 = "s\<lparr>pb_pos := last_rtptime s + PACKET_SAMPLES e - 88200\<rparr>"
  have "source_next_r_mode False ?s1 = Inr REPEAT_SONG"
    using a by (simp add: source_next_r_mode_def)
  then have "source_next e False ?s1 = Inl NULL_DEREF"
    using a by (simp add: source_next_def source_next_switch_def source_next_ps_def Let_def)
  then show "playback_start e None s = Inl NULL_DEREF"
    using a by (simp add: playback_start_def Let_def)
next
  assume a: "deref s (cur_streaming s) = Inr cs \<and> source_next_r_mode force s = Inr REPEAT_SONG"
  then obtain p where p: "cur_streaming s = Some p"
    by (auto dest: deref_Inr)
  obtain ret s1 where o: "source_open e (cur_streaming s) s = Inr (ret, s1)"
    using a source_open_returns by blast
  have "\<exists>r. source_next e force s = Inr r"
    using a p o
    by (simp add: source_next_def source_next_switch_def source_next_ps_def Let_def)
  then show "\<not> isl (source_next e force s)"
    by auto
qed

theorem source_next_song_needs_cur_streaming_witness:
  "cur_streaming one_song = None \<and> source_next_r_mode False one_song = Inr REPEAT_SONG
   \<and> source_next good_env False one_song = Inl NULL_DEREF
   \<and> player_state (one_song\<lparr>repeat := REPEAT_SONG\<rparr>) \<noteq> PLAY_PLAYING
   \<and> \<not> shuffle (one_song\<lparr>repeat := REPEAT_SONG\<rparr>)
   \<and> source_head (one_song\<lparr>repeat := REPEAT_SONG\<rparr>) \<noteq> None
   \<and> playback_start good_env None (one_song\<lparr>repeat := REPEAT_SONG\<rparr>) = Inl NULL_DEREF
   \<and> deref (one_song\<lparr>cur_streaming := Some 0\<rparr>) (cur_streaming (one_song\<lparr>cur_streaming := Some 0\<rparr>))
        = Inr (item 7 0 0)
   \<and> \<not> isl (source_next good_env False (one_song\<lparr>cur_streaming := Some 0\<rparr>))"
proof -
  let ?song = "one_song\<lparr>repeat := REPEAT_SONG\<rparr>"
  let ?cur = "one_song\<lparr>cur_streaming := Some 0\<rparr>"
  have m: "source_next_r_mode False one_song = Inr REPEAT_SONG"
    "source_next_r_mode False ?cur = Inr REPEAT_SONG"
    by (simp_all add: source_next_r_mode_def one_item_def one_song_def player_init_def item_def)
  have c: "cur_streaming one_song = None" "cur_streaming ?song = None"
    "player_state ?song \<noteq> PLAY_PLAYING" "\<not> shuffle ?song" "repeat ?song = REPEAT_SONG"
    "source_head ?song \<noteq> None"
    by (simp_all add: one_song_def player_init_def)
  have d: "deref ?cur (cur_streaming ?cur) = Inr (item 7 0 0)"
    by (simp add: one_song_def)
  note t1 = source_next_song_needs_cur_streaming [of one_song False good_env "item 7 0 0"]
  note t2 = source_next_song_needs_cur_streaming [of ?song False good_env "item 7 0 0"]
  note t3 = source_next_song_needs_cur_streaming [of ?cur False good_env "item 7 0 0"]
  have "source_next good_env False one_song = Inl NULL_DEREF"
    using t1 c m by simp
  moreover have "playback_start good_env None ?song = Inl NULL_DEREF"
    using t2 c by simp
  moreover have "\<not> isl (source_next good_env False ?cur)"
    using t3 d m by simp
  ultimately show ?thesis using c m d by simp
qed

subsection \<open>Starting playback\<close>

text \<open>
  C8. With an empty queue (\<^verbatim>\<open>source_head == NULL\<close>) \<^verbatim>\<open>playback_start\<close> fails
  with -1 and leaves the whole state, and \<^verbatim>\<open>*idx_id\<close>, unchanged.
\<close>

theorem playback_start_empty_queue:
  "source_head s = None \<Longrightarrow> playback_start e arg s = Inr (-1, arg, s)"
  by (simp add: playback_start_def)

theorem playback_start_empty_queue_witness:
  "source_head (player_init 0 75) = None
   \<and> playback_start good_env (Some 2) (player_init 0 75) = Inr (-1, Some 2, player_init 0 75)"
proof -
  have h: "source_head (player_init 0 75) = None" by (simp add: player_init_def)
  from playback_start_empty_queue [OF h] h show ?thesis by simp
qed

lemma status_update_same:
  "player_state s = st \<Longrightarrow>
     status_update st s = (if update_fd s < 0 then s else s\<lparr>updates := updates s + 1\<rparr>)"
  by (auto simp add: status_update_def Let_def)

text \<open>
  \<^verbatim>\<open>playback_start\<close> while already playing, with no update descriptor
  registered (\<^verbatim>\<open>update_fd = -1\<close>, its value after \<^verbatim>\<open>player_init\<close>): it returns
  0 and writes no status notification at all.
\<close>

theorem playback_start_while_playing_counterexample:
  "player_state unwatched_song = PLAY_PLAYING \<and> source_head unwatched_song \<noteq> None
   \<and> playback_start good_env None unwatched_song = Inr (0, None, unwatched_song)
   \<and> updates (snd (snd (projr (playback_start good_env None unwatched_song))))
        = updates unwatched_song"
  by (simp add: playback_start_def status_update_def unwatched_song_def playing_song_def
      three_songs_def Let_def)

text \<open>
  C10, amended. In every state in which \<open>PlayerState\<close> is Playing and the
  queue is not empty, \<^verbatim>\<open>playback_start\<close> returns 0; when \<^verbatim>\<open>idx_id\<close> is not
  null and there is a current item it writes that item's id
  (\<^verbatim>\<open>cur_playing\<close>'s if set, else \<^verbatim>\<open>cur_streaming\<close>'s) into \<^verbatim>\<open>*idx_id\<close>; it
  writes one status notification when an update descriptor is registered
  (\<^verbatim>\<open>update_fd >= 0\<close>) and none otherwise; every other field of the state,
  the queue rings, the cursors, the clock, the devices and the calls made to
  the outputs, is as before the call.
\<close>

theorem playback_start_while_playing:
  assumes "player_state s = PLAY_PLAYING" and "source_head s \<noteq> None"
    and "arg = None \<or> deref s (cur_item s) = Inr node"
  shows "playback_start e arg s
     = Inr (0, map_option (\<lambda>idx. src_id node) arg,
            if update_fd s < 0 then s else s\<lparr>updates := updates s + 1\<rparr>)"
proof (cases arg)
  case None
  then show ?thesis
    using assms(1,2) by (simp add: playback_start_def status_update_same)
next
  case (Some idx)
  then have "deref s (cur_item s) = Inr node" using assms(3) by simp
  then show ?thesis
    using assms(1,2) Some
    by (simp add: playback_start_def status_update_same cur_item_def split: if_splits)
qed

theorem playback_start_while_playing_witness:
  "player_state playing_song = PLAY_PLAYING \<and> source_head playing_song \<noteq> None
   \<and> deref playing_song (cur_item playing_song) = Inr (heap playing_song ! 0)
   \<and> playback_start good_env (Some 2) playing_song
        = Inr (0, Some 7, playing_song\<lparr>updates := 1\<rparr>)"
proof -
  have h: "player_state playing_song = PLAY_PLAYING" "source_head playing_song \<noteq> None"
    by (simp_all add: playing_song_def three_songs_def)
  have d: "deref playing_song (cur_item playing_song) = Inr (heap playing_song ! 0)"
    by (simp add: playing_song_def cur_item_def)
  have f: "src_id (heap playing_song ! 0) = 7" "\<not> update_fd playing_song < 0"
    "updates playing_song = 0"
    by (simp_all add: playing_song_def three_songs_def item_def player_init_def)
  have "playback_start good_env (Some 2) playing_song
     = Inr (0, map_option (\<lambda>idx. src_id (heap playing_song ! 0)) (Some (2 :: 32 word)),
            if update_fd playing_song < 0 then playing_song
            else playing_song\<lparr>updates := updates playing_song + 1\<rparr>)"
    by (rule playback_start_while_playing) (simp_all add: h d)
  then show ?thesis using h d f by simp
qed

subsection \<open>Seeking\<close>

lemma seek_samples:
  fixes r :: "32 word"
  assumes "0 \<le> sint r"
  shows "((scast r :: 64 word) * 44100) div 1000 = word_of_int ((sint r * 44100) div 1000)"
proof -
  have "sint r < 2 ^ (LENGTH(32) - 1)" by (rule sint_lt)
  also have "(2::int) ^ (LENGTH(32) - 1) = 2147483648" by simp
  finally have b: "sint r < 2147483648" .
  have s: "(scast r :: 64 word) = word_of_int (sint r)" by (rule scast_eq)
  have m: "(word_of_int (sint r) :: 64 word) * 44100 = word_of_int (sint r * 44100)"
    by (simp only: word_of_int_hom_syms) simp
  have "0 \<le> sint r * 44100" using assms by simp
  moreover have "sint r * 44100 < 2 ^ 64" using b by simp
  ultimately have u: "uint (word_of_int (sint r * 44100) :: 64 word) = sint r * 44100"
    by (rule uint_word_of_int_64)
  have "uint (((scast r :: 64 word) * 44100) div 1000) = (sint r * 44100) div 1000"
    unfolding s m by (simp only: uint_div u) simp
  then show ?thesis by (metis word_of_int_uint)
qed

text \<open>
  C7. For a current item and a seek for which \<^verbatim>\<open>transcode_seek\<close> succeeds
  with the position \<open>ret\<close> (in milliseconds), the seek bottom half returns
  0, sets the item's \<open>stream_start\<close> to
  \<open>last_rtptime + PACKET_SAMPLES - (ret * 44100) div 1000\<close> and its
  \<open>output_start\<close> to \<open>last_rtptime + PACKET_SAMPLES\<close>, makes it
  \<^verbatim>\<open>cur_streaming\<close> and clears \<^verbatim>\<open>cur_playing\<close>; the state becomes Paused.
\<close>

theorem playback_seek_bh_success:
  assumes "cur_item s = Some a" and "a < length (heap s)"
    and "ret = transcode_seek e (ctx (heap s ! a)) ms" and "0 \<le> sint ret"
  shows "\<not> isl (playback_seek_bh e (Some ms) s)
     \<and> fst (projr (playback_seek_bh e (Some ms) s)) = 0
     \<and> (let s' = snd (projr (playback_seek_bh e (Some ms) s))
        in stream_start (heap s' ! a)
             = last_rtptime s + PACKET_SAMPLES e - word_of_int ((sint ret * 44100) div 1000)
           \<and> output_start (heap s' ! a) = last_rtptime s + PACKET_SAMPLES e
           \<and> cur_streaming s' = Some a \<and> cur_playing s' = None
           \<and> player_state s' = PLAY_PAUSED \<and> last_rtptime s' = last_rtptime s)"
proof -
  let ?s1 = "upd a (\<lambda>n. n\<lparr>src_end := 0\<rparr>) s"
  have r: "playback_seek_bh e (Some ms) s
      = Inr (0, (seek_adjust e a ret ?s1)\<lparr>player_state := PLAY_PAUSED\<rparr>)"
    using assms by (simp add: playback_seek_bh_def cur_item_def Let_def split: if_splits)
  show ?thesis
    unfolding r using assms(2,4)
    by (simp add: seek_adjust_def Let_def seek_samples)
qed

theorem playback_seek_bh_success_witness:
  "cur_item playing_song = Some 0 \<and> 0 < length (heap playing_song)
   \<and> transcode_seek good_env (ctx (heap playing_song ! 0)) 5000 = 5000
   \<and> fst (projr (playback_seek_bh good_env (Some 5000) playing_song)) = 0
   \<and> stream_start (heap (snd (projr (playback_seek_bh good_env (Some 5000) playing_song))) ! 0)
        = 100000 + 352 - 220500
   \<and> cur_playing (snd (projr (playback_seek_bh good_env (Some 5000) playing_song))) = None"
proof -
  have h: "cur_item playing_song = Some 0" "0 < length (heap playing_song)"
    "(5000 :: 32 word) = transcode_seek good_env (ctx (heap playing_song ! 0)) 5000"
    "0 \<le> sint (5000 :: 32 word)"
    "last_rtptime playing_song = 100000" "PACKET_SAMPLES good_env = 352"
    by (simp_all add: cur_item_def playing_song_def three_songs_def good_env_def)
  from playback_seek_bh_success [OF h(1-4)] h show ?thesis
    by (simp add: Let_def)
qed

subsection \<open>Pause and resume\<close>












subsection \<open>State transitions and status updates\<close>

lemma quiet_refl [simp]: "quiet s s"
  by (simp add: quiet_def)


lemma quiet_upd [simp]: "quiet s (upd a f s)"
  by (simp add: quiet_def)

lemma quiet_ext [simp]: "quiet s (ext c s)"
  by (simp add: quiet_def ext_def)

lemma quiet_upd_r: "quiet s s1 \<Longrightarrow> quiet s (upd a f s1)"
  by (simp add: quiet_def)

lemma quiet_ext_r: "quiet s s1 \<Longrightarrow> quiet s (ext c s1)"
  by (simp add: quiet_def ext_def)



lemma timer_teardown_quiet: "quiet s (timer_teardown s)"
  by (simp add: timer_teardown_def quiet_def ext_def Let_def)




















subsection \<open>The result of a command\<close>












end
